theory Spec2Isabelle
  imports Main "HOL-Library.Multiset"
begin

section \<open>Data model\<close>

text \<open>
  The types of \<^verbatim>\<open>../types/quiz\<close> as the components use them. JavaScript numbers are
  modelled as \<open>int\<close>; \<^verbatim>\<open>number | null\<close> is an \<open>option\<close>. A property that an
  object literal does not set reads as \<^verbatim>\<open>undefined\<close>: that is \<open>None\<close> in the one
  field where it matters (\<open>questionAttempts\<close>). Fields that are only displayed
  (question text, options, explanation, media, bank name and description) are left out.
\<close>

datatype error = TypeError

record Question =
  qid :: int
  qbankId :: string
  correctAnswer :: int
  isMarked :: bool

record QBank =
  b_id :: string
  questions :: "Question list"

record QuestionAttempt =
  questionId :: int
  a_selectedAnswer :: "int option"
  isCorrect :: bool

record QuizHistory =
  h_id :: string
  h_date :: string
  h_score :: int
  h_totalQuestions :: int
  h_qbankId :: string
  questionAttempts :: "QuestionAttempt list option"

text \<open>\<^verbatim>\<open>xs[i]\<close>: \<^verbatim>\<open>undefined\<close> outside the array.\<close>

definition at_index :: "'a list \<Rightarrow> int \<Rightarrow> 'a option" where
  "at_index xs i = (if 0 \<le> i \<and> i < int (length xs) then Some (xs ! nat i) else None)"

text \<open>\<^verbatim>\<open>xs.slice(0, n)\<close>: a negative end counts from the end of the array.\<close>

definition slice0 :: "int \<Rightarrow> 'a list \<Rightarrow> 'a list" where
  "slice0 n xs = (if n < 0 then take (nat (int (length xs) + n)) xs else take (nat n) xs)"

section \<open>The quiz page (Index.tsx)\<close>

text \<open>
  The thirteen \<^verbatim>\<open>useState\<close> variables of the component. A timer handle
  (\<^verbatim>\<open>NodeJS.Timeout | null\<close>) is a number or nothing.
\<close>

record Index_state =
  currentQuestionIndex :: int
  score :: int
  showScore :: bool
  selectedAnswer :: "int option"
  isAnswered :: bool
  inQuiz :: bool
  currentQuestions :: "Question list"
  tutorMode :: bool
  showExplanation :: bool
  isPaused :: bool
  timerEnabled :: bool
  timePerQuestion :: int
  questionTimer :: "nat option"

definition initial_state :: Index_state where
  "initial_state = \<lparr> currentQuestionIndex = 0, score = 0, showScore = False,
     selectedAnswer = None, isAnswered = False, inQuiz = False, currentQuestions = [],
     tutorMode = False, showExplanation = False, isPaused = False, timerEnabled = False,
     timePerQuestion = 60, questionTimer = None \<rparr>"

text \<open>
  What surrounds the component: the live state, the timeouts that \<^verbatim>\<open>setTimeout\<close> has
  scheduled and that are still pending (handle, delay in milliseconds, and the render
  whose variables the callback closes over), the next free handle, and the records passed
  to \<^verbatim>\<open>onQuizComplete\<close> so far.
\<close>

record world =
  st :: Index_state
  timers :: "(nat \<times> int \<times> Index_state) list"
  next_handle :: nat
  emitted :: "QuizHistory list"

definition initial_world :: world where
  "initial_world = \<lparr> st = initial_state, timers = [], next_handle = 1, emitted = [] \<rparr>"

text \<open>\<^verbatim>\<open>Date.now().toString()\<close> and \<^verbatim>\<open>new Date().toLocaleDateString()\<close>.\<close>

record clock =
  now :: string
  today :: string

text \<open>
  Every handler is a closure of one render: where its body reads a state variable it
  reads the value of that render (the argument \<open>c\<close>), and a \<^verbatim>\<open>setX\<close> call changes the
  live state (in \<open>w\<close>); \<^verbatim>\<open>setX(prev => f(prev))\<close> applies \<open>f\<close> to the live
  value. A handler run by a click is the one of the current render, \<open>c = st w\<close>; the
  callback of a timeout is the one of the render that armed it.
\<close>

definition clearTimeout :: "nat \<Rightarrow> world \<Rightarrow> world" where
  "clearTimeout h w = w\<lparr> timers := filter (\<lambda>t. fst t \<noteq> h) (timers w) \<rparr>"

definition startQuestionTimer :: "Index_state \<Rightarrow> world \<Rightarrow> world" where
  "startQuestionTimer c w =
     (let w1 = (case questionTimer c of Some h \<Rightarrow> clearTimeout h w | None \<Rightarrow> w);
          h = next_handle w1;
          w2 = w1\<lparr> timers := timers w1 @ [(h, timePerQuestion c * 1000, c)],
                   next_handle := Suc h \<rparr>
      in w2\<lparr> st := (st w2)\<lparr> questionTimer := Some h \<rparr> \<rparr>)"

definition proceedToNextQuestion :: "clock \<Rightarrow> Index_state \<Rightarrow> world \<Rightarrow> int \<Rightarrow> error + world" where
  "proceedToNextQuestion clk c w optionIndex =
     (if currentQuestionIndex c = int (length (currentQuestions c)) - 1 then
        (case at_index (currentQuestions c) (currentQuestionIndex c) of
           None \<Rightarrow> Inl TypeError
         | Some q \<Rightarrow>
            (case at_index (currentQuestions c) 0 of
               None \<Rightarrow> Inl TypeError
             | Some q0 \<Rightarrow>
                Inr (w\<lparr> emitted := emitted w @
                          [\<lparr> h_id = now clk, h_date = today clk,
                             h_score = score c + (if optionIndex = correctAnswer q then 1 else 0),
                             h_totalQuestions = int (length (currentQuestions c)),
                             h_qbankId = qbankId q0,
                             questionAttempts = None \<rparr>],
                        st := (st w)\<lparr> showScore := True \<rparr> \<rparr>)))
      else
        (let w1 = w\<lparr> st := (st w)\<lparr> currentQuestionIndex := currentQuestionIndex (st w) + 1,
                                     selectedAnswer := None, isAnswered := False \<rparr> \<rparr>
         in Inr (if timerEnabled c then startQuestionTimer c w1 else w1)))"

definition handleAnswerTimeout :: "clock \<Rightarrow> Index_state \<Rightarrow> world \<Rightarrow> error + world" where
  "handleAnswerTimeout clk c w =
     (let w1 = w\<lparr> st := (st w)\<lparr> isAnswered := True \<rparr> \<rparr>
      in if tutorMode c then Inr (w1\<lparr> st := (st w1)\<lparr> showExplanation := True \<rparr> \<rparr>)
         else proceedToNextQuestion clk c w1 (- 1))"

definition handleAnswerClick :: "clock \<Rightarrow> Index_state \<Rightarrow> world \<Rightarrow> int \<Rightarrow> error + world" where
  "handleAnswerClick clk c w optionIndex =
     (if isAnswered c \<or> isPaused c then Inr w
      else
        (let w1 = w\<lparr> st := (st w)\<lparr> selectedAnswer := Some optionIndex, isAnswered := True \<rparr> \<rparr>
         in case at_index (currentQuestions c) (currentQuestionIndex c) of
              None \<Rightarrow> Inl TypeError
            | Some q \<Rightarrow>
               (let w2 = (if optionIndex = correctAnswer q
                          then w1\<lparr> st := (st w1)\<lparr> score := score (st w1) + 1 \<rparr> \<rparr> else w1)
                in if tutorMode c then Inr (w2\<lparr> st := (st w2)\<lparr> showExplanation := True \<rparr> \<rparr>)
                   else proceedToNextQuestion clk c w2 optionIndex)))"

definition handleRestart :: "Index_state \<Rightarrow> world \<Rightarrow> world" where
  "handleRestart c w =
     (let w1 = (case questionTimer c of Some h \<Rightarrow> clearTimeout h w | None \<Rightarrow> w)
      in w1\<lparr> st := (st w1)\<lparr> inQuiz := False, currentQuestionIndex := 0, score := 0,
                              showScore := False, selectedAnswer := None, isAnswered := False,
                              tutorMode := False, isPaused := False \<rparr> \<rparr>)"

definition handleQuit :: "clock \<Rightarrow> Index_state \<Rightarrow> world \<Rightarrow> error + world" where
  "handleQuit clk c w =
     (case at_index (currentQuestions c) 0 of
        None \<Rightarrow> Inl TypeError
      | Some q0 \<Rightarrow>
         Inr (handleRestart c
               (w\<lparr> emitted := emitted w @
                     [\<lparr> h_id = now clk, h_date = today clk, h_score = score c,
                        h_totalQuestions = int (length (currentQuestions c)),
                        h_qbankId = qbankId q0, questionAttempts = None \<rparr>] \<rparr>)))"

definition handlePause :: "Index_state \<Rightarrow> world \<Rightarrow> world" where
  "handlePause c w =
     (let w1 = w\<lparr> st := (st w)\<lparr> isPaused := \<not> isPaused (st w) \<rparr> \<rparr>
      in case questionTimer c of Some h \<Rightarrow> clearTimeout h w1 | None \<Rightarrow> w1)"

text \<open>\<^verbatim>\<open>selectedAnswer || d\<close>: \<^verbatim>\<open>null\<close> and \<open>0\<close> are both falsy.\<close>

definition or_default :: "int option \<Rightarrow> int \<Rightarrow> int" where
  "or_default a d = (case a of None \<Rightarrow> d | Some n \<Rightarrow> if n = 0 then d else n)"

definition handleContinue :: "clock \<Rightarrow> Index_state \<Rightarrow> world \<Rightarrow> error + world" where
  "handleContinue clk c w =
     proceedToNextQuestion clk c (w\<lparr> st := (st w)\<lparr> showExplanation := False \<rparr> \<rparr>)
       (or_default (selectedAnswer c) 0)"

datatype direction = Prev | Next

definition handleQuizNavigation :: "clock \<Rightarrow> Index_state \<Rightarrow> world \<Rightarrow> direction \<Rightarrow> error + world" where
  "handleQuizNavigation clk c w dir =
     (if dir = Prev \<and> currentQuestionIndex c > 0 then
        (let w1 = w\<lparr> st := (st w)\<lparr> currentQuestionIndex := currentQuestionIndex (st w) - 1,
                                     selectedAnswer := None, isAnswered := False \<rparr> \<rparr>
         in Inr (if timerEnabled c then startQuestionTimer c w1 else w1))
      else if dir = Next \<and> currentQuestionIndex c < int (length (currentQuestions c)) - 1 then
        proceedToNextQuestion clk c w (or_default (selectedAnswer c) (- 1))
      else Inr w)"

text \<open>
  The callback that \<^verbatim>\<open>startQuestionTimer\<close> hands to \<^verbatim>\<open>setTimeout\<close>, and a pending
  timeout firing: it leaves the pending set and its callback runs.
\<close>

definition timerCallback :: "clock \<Rightarrow> Index_state \<Rightarrow> world \<Rightarrow> error + world" where
  "timerCallback clk c w =
     (if \<not> isAnswered c \<and> \<not> isPaused c then handleAnswerTimeout clk c w else Inr w)"

definition timerFires :: "clock \<Rightarrow> nat \<Rightarrow> world \<Rightarrow> error + world" where
  "timerFires clk h w =
     (case find (\<lambda>t. fst t = h) (timers w) of
        None \<Rightarrow> Inr w
      | Some (_, _, c) \<Rightarrow> timerCallback clk c (clearTimeout h w))"

text \<open>
  \<^verbatim>\<open>handleStartQuiz\<close> of the page. The catalogue \<open>qbanks\<close> is the module constant
  imported from \<^verbatim>\<open>../data/questions\<close>; \<open>shuffle\<close> stands for
  \<^verbatim>\<open>[...xs].sort(() => Math.random() - 0.5)\<close>, whose outcome is some rearrangement of
  its argument.
\<close>

definition handleStartQuiz ::
  "(Question list \<Rightarrow> Question list) \<Rightarrow> QBank list \<Rightarrow> Index_state \<Rightarrow> world \<Rightarrow>
     string \<Rightarrow> int \<Rightarrow> bool \<Rightarrow> bool \<Rightarrow> int \<Rightarrow> world" where
  "handleStartQuiz shuffle qbanks c w qbankId' questionCount isTutorMode withTimer timeLimit =
     (case find (\<lambda>qb. b_id qb = qbankId') qbanks of
        None \<Rightarrow> w
      | Some selectedQBank \<Rightarrow>
         (let shuffledQuestions = slice0 questionCount (shuffle (questions selectedQBank));
              w1 = w\<lparr> st := (st w)\<lparr> currentQuestions := shuffledQuestions,
                                     currentQuestionIndex := 0, score := 0, showScore := False,
                                     selectedAnswer := None, isAnswered := False,
                                     tutorMode := isTutorMode, timerEnabled := withTimer,
                                     timePerQuestion := timeLimit, inQuiz := True,
                                     isPaused := False \<rparr> \<rparr>
          in if withTimer then startQuestionTimer c w1 else w1))"

text \<open>
  The controls of the quiz view. A click runs the handler of the current render unless
  the control is \<^verbatim>\<open>disabled\<close>. The page's own toolbar disables Previous on the first
  question only; the Previous button of the explanation panel sets the index directly.
\<close>

definition toolbar_navigate :: "clock \<Rightarrow> world \<Rightarrow> direction \<Rightarrow> error + world" where
  "toolbar_navigate clk w dir =
     (let c = st w in
      case dir of
        Prev \<Rightarrow> if currentQuestionIndex c = 0 then Inr w
                else handleQuizNavigation clk c w Prev
      | Next \<Rightarrow> if currentQuestionIndex c = int (length (currentQuestions c)) - 1 \<or> \<not> isAnswered c
                then Inr w else handleQuizNavigation clk c w Next)"

definition explanationPrevious :: "world \<Rightarrow> world" where
  "explanationPrevious w =
     (if currentQuestionIndex (st w) = 0 then w
      else w\<lparr> st := (st w)\<lparr> currentQuestionIndex := max 0 (currentQuestionIndex (st w) - 1) \<rparr> \<rparr>)"

text \<open>
  The \<^verbatim>\<open>QuizController\<close> component: its Previous button is disabled on the first
  question and whenever \<^verbatim>\<open>timerEnabled\<close>. Its props are taken from the page's state and
  \<^verbatim>\<open>onNavigate\<close> is \<^verbatim>\<open>handleQuizNavigation\<close>.
\<close>

definition QuizController_navigate :: "clock \<Rightarrow> world \<Rightarrow> direction \<Rightarrow> error + world" where
  "QuizController_navigate clk w dir =
     (let c = st w in
      case dir of
        Prev \<Rightarrow> if currentQuestionIndex c = 0 \<or> timerEnabled c then Inr w
                else handleQuizNavigation clk c w Prev
      | Next \<Rightarrow> if currentQuestionIndex c = int (length (currentQuestions c)) - 1 \<or> \<not> isAnswered c
                then Inr w else handleQuizNavigation clk c w Next)"

datatype event =
    AnswerClick int
  | Navigate direction
  | ExplanationPrevious
  | Continue
  | Pause
  | Quit
  | Restart
  | TimerFires nat

fun step :: "clock \<Rightarrow> event \<Rightarrow> world \<Rightarrow> error + world" where
  "step clk (AnswerClick i) w = handleAnswerClick clk (st w) w i"
| "step clk (Navigate dir) w = toolbar_navigate clk w dir"
| "step clk ExplanationPrevious w = Inr (explanationPrevious w)"
| "step clk Continue w = handleContinue clk (st w) w"
| "step clk Pause w = Inr (handlePause (st w) w)"
| "step clk Quit w = handleQuit clk (st w) w"
| "step clk Restart w = Inr (handleRestart (st w) w)"
| "step clk (TimerFires h) w = timerFires clk h w"

fun run :: "clock \<Rightarrow> event list \<Rightarrow> world \<Rightarrow> error + world" where
  "run clk [] w = Inr w"
| "run clk (e # es) w = (case step clk e w of Inl err \<Rightarrow> Inl err | Inr w' \<Rightarrow> run clk es w')"

section \<open>The dashboard (Dashboard.tsx)\<close>

text \<open>
  \<^verbatim>\<open>metrics\<close>, \<^verbatim>\<open>filteredQBanks\<close> and \<^verbatim>\<open>handleStartQuiz\<close> of the dashboard. The two
  versions of the component differ only in how the selected bank is held (its id, or the
  bank itself); the one modelled holds the id, and the empty string is ``none selected''.
  Counts, indices and ids are whole numbers.
\<close>

record QuestionFilter =
  f_unused :: bool
  f_used :: bool
  f_incorrect :: bool
  f_correct :: bool
  f_marked :: bool
  f_omitted :: bool

record id_sets =
  seenQuestionIds :: "int set"
  correctQuestionIds :: "int set"
  incorrectQuestionIds :: "int set"
  omittedQuestionIds :: "int set"

record Metrics =
  m_unused :: nat
  m_used :: nat
  m_correct :: nat
  m_incorrect :: nat
  m_marked :: nat
  m_omitted :: nat

definition no_ids :: id_sets where
  "no_ids = \<lparr> seenQuestionIds = {}, correctQuestionIds = {}, incorrectQuestionIds = {},
     omittedQuestionIds = {} \<rparr>"

text \<open>The body of the inner \<^verbatim>\<open>forEach\<close> of \<^verbatim>\<open>metrics\<close>.\<close>

definition add_attempt :: "id_sets \<Rightarrow> QuestionAttempt \<Rightarrow> id_sets" where
  "add_attempt s attempt =
     (let s1 = s\<lparr> seenQuestionIds := insert (questionId attempt) (seenQuestionIds s) \<rparr>
      in if a_selectedAnswer attempt = None then
           s1\<lparr> incorrectQuestionIds := insert (questionId attempt) (incorrectQuestionIds s1),
               omittedQuestionIds := insert (questionId attempt) (omittedQuestionIds s1) \<rparr>
         else if isCorrect attempt then
           s1\<lparr> correctQuestionIds := insert (questionId attempt) (correctQuestionIds s1) \<rparr>
         else
           s1\<lparr> incorrectQuestionIds := insert (questionId attempt) (incorrectQuestionIds s1) \<rparr>)"

text \<open>
  The outer \<^verbatim>\<open>forEach\<close>: \<^verbatim>\<open>quiz.questionAttempts.forEach\<close> throws on a record
  that has no \<^verbatim>\<open>questionAttempts\<close>.
\<close>

fun scan_history :: "id_sets \<Rightarrow> QuizHistory list \<Rightarrow> error + id_sets" where
  "scan_history s [] = Inr s"
| "scan_history s (quiz # rest) =
     (case questionAttempts quiz of
        None \<Rightarrow> Inl TypeError
      | Some attempts \<Rightarrow> scan_history (foldl add_attempt s attempts) rest)"

definition marked_ids :: "QBank list \<Rightarrow> int set" where
  "marked_ids qbanks =
     foldl (\<lambda>m qbank. foldl (\<lambda>m question. if isMarked question then insert (qid question) m else m)
                         m (questions qbank)) {} qbanks"

definition metrics :: "QBank list \<Rightarrow> QuizHistory list \<Rightarrow> error + Metrics" where
  "metrics qbanks quizHistory =
     (case scan_history no_ids quizHistory of
        Inl e \<Rightarrow> Inl e
      | Inr s \<Rightarrow>
         (let unusedCount =
                foldl (\<lambda>acc qbank.
                         acc + length (filter (\<lambda>q. qid q \<notin> seenQuestionIds s) (questions qbank)))
                      0 qbanks;
              markedQuestionIds = (if length quizHistory > 0 then marked_ids qbanks else {})
          in Inr \<lparr> m_unused = unusedCount,
                   m_used = card (seenQuestionIds s),
                   m_correct = card (correctQuestionIds s),
                   m_incorrect = card (incorrectQuestionIds s),
                   m_marked = card markedQuestionIds,
                   m_omitted = card (omittedQuestionIds s) \<rparr>))"

text \<open>\<^verbatim>\<open>Object.values(filters).some(Boolean)\<close>\<close>

definition some_filter :: "QuestionFilter \<Rightarrow> bool" where
  "some_filter f =
     (f_unused f \<or> f_used f \<or> f_incorrect f \<or> f_correct f \<or> f_marked f \<or> f_omitted f)"

text \<open>
  \<^verbatim>\<open>quizHistory.flatMap(quiz => quiz.questionAttempts.filter(a => a.questionId === id))\<close>
\<close>

fun attempts_of :: "QuizHistory list \<Rightarrow> int \<Rightarrow> error + QuestionAttempt list" where
  "attempts_of [] i = Inr []"
| "attempts_of (quiz # rest) i =
     (case questionAttempts quiz of
        None \<Rightarrow> Inl TypeError
      | Some as \<Rightarrow>
         (case attempts_of rest i of
            Inl e \<Rightarrow> Inl e
          | Inr others \<Rightarrow> Inr (filter (\<lambda>attempt. questionId attempt = i) as @ others)))"

text \<open>The callback of \<^verbatim>\<open>qbank.questions.filter\<close> in \<^verbatim>\<open>filteredQBanks\<close>.\<close>

definition keep_question :: "QuizHistory list \<Rightarrow> QuestionFilter \<Rightarrow> Question \<Rightarrow> error + bool" where
  "keep_question quizHistory f question =
     (case attempts_of quizHistory (qid question) of
        Inl e \<Rightarrow> Inl e
      | Inr attempts \<Rightarrow>
         (let isUsed = (length attempts > 0);
              isCorrect' = list_ex isCorrect attempts;
              isIncorrect = list_ex (\<lambda>attempt. \<not> isCorrect attempt) attempts;
              isOmitted = list_ex (\<lambda>attempt. a_selectedAnswer attempt = None) attempts
          in Inr ((f_unused f \<and> \<not> isUsed) \<or> (f_used f \<and> isUsed) \<or> (f_correct f \<and> isCorrect') \<or>
                  (f_incorrect f \<and> isIncorrect) \<or> (f_marked f \<and> isMarked question) \<or>
                  (f_omitted f \<and> isOmitted))))"

fun filter_questions ::
  "QuizHistory list \<Rightarrow> QuestionFilter \<Rightarrow> Question list \<Rightarrow> error + Question list" where
  "filter_questions quizHistory f [] = Inr []"
| "filter_questions quizHistory f (q # qs) =
     (case keep_question quizHistory f q of
        Inl e \<Rightarrow> Inl e
      | Inr keep \<Rightarrow>
         (case filter_questions quizHistory f qs of
            Inl e \<Rightarrow> Inl e
          | Inr kept \<Rightarrow> Inr (if keep then q # kept else kept)))"

fun map_qbanks :: "QuizHistory list \<Rightarrow> QuestionFilter \<Rightarrow> QBank list \<Rightarrow> error + QBank list" where
  "map_qbanks quizHistory f [] = Inr []"
| "map_qbanks quizHistory f (qbank # rest) =
     (case filter_questions quizHistory f (questions qbank) of
        Inl e \<Rightarrow> Inl e
      | Inr kept \<Rightarrow>
         (case map_qbanks quizHistory f rest of
            Inl e \<Rightarrow> Inl e
          | Inr banks \<Rightarrow> Inr (qbank\<lparr> questions := kept \<rparr> # banks)))"

definition filteredQBanks ::
  "QBank list \<Rightarrow> QuizHistory list \<Rightarrow> QuestionFilter \<Rightarrow> error + QBank list" where
  "filteredQBanks qbanks quizHistory f =
     (if \<not> some_filter f then Inr qbanks
      else case map_qbanks quizHistory f qbanks of
             Inl e \<Rightarrow> Inl e
           | Inr banks \<Rightarrow> Inr (filter (\<lambda>qbank. length (questions qbank) > 0) banks))"

text \<open>
  The dashboard's own state, and its \<^verbatim>\<open>handleStartQuiz\<close>. The toast is returned next to
  the world; \<^verbatim>\<open>questionCount > undefined\<close> is false, so a selected bank that the
  filtered catalogue does not hold passes the check.
\<close>

record Dashboard_state =
  selectedQBank :: string
  questionCount :: int
  d_tutorMode :: bool
  d_timerEnabled :: bool
  timeLimit :: int
  filters :: QuestionFilter

datatype toast = Invalid_Question_Count

definition Dashboard_handleStartQuiz ::
  "(string \<Rightarrow> int \<Rightarrow> bool \<Rightarrow> bool \<Rightarrow> int \<Rightarrow> world \<Rightarrow> world) \<Rightarrow> QBank list \<Rightarrow> QuizHistory list \<Rightarrow>
     Dashboard_state \<Rightarrow> world \<Rightarrow> error + (toast option \<times> world)" where
  "Dashboard_handleStartQuiz onStartQuiz qbanks quizHistory d w =
     (if selectedQBank d \<noteq> [] \<and> questionCount d > 0 then
        (case filteredQBanks qbanks quizHistory (filters d) of
           Inl e \<Rightarrow> Inl e
         | Inr banks \<Rightarrow>
            (if (case find (\<lambda>qb. b_id qb = selectedQBank d) banks of
                   None \<Rightarrow> False
                 | Some qb \<Rightarrow> questionCount d > int (length (questions qb)))
             then Inr (Some Invalid_Question_Count, w)
             else Inr (None, onStartQuiz (selectedQBank d) (questionCount d) (d_tutorMode d)
                               (d_timerEnabled d) (timeLimit d) w)))
      else Inr (None, w))"

text \<open>
  The page renders the dashboard with the whole catalogue and its own
  \<^verbatim>\<open>handleStartQuiz\<close> as \<^verbatim>\<open>onStartQuiz\<close>.
\<close>

definition start ::
  "(Question list \<Rightarrow> Question list) \<Rightarrow> QBank list \<Rightarrow> QuizHistory list \<Rightarrow> Dashboard_state \<Rightarrow>
     world \<Rightarrow> error + (toast option \<times> world)" where
  "start shuffle qbanks quizHistory d w =
     Dashboard_handleStartQuiz
       (\<lambda>qbankId' n isTutorMode withTimer limit w'.
          handleStartQuiz shuffle qbanks (st w') w' qbankId' n isTutorMode withTimer limit)
       qbanks quizHistory d w"

section \<open>What the specification says, for comparison\<close>

text \<open>
  The membership tests of the specification's \<open>classify\<close>, over every attempt of every
  record of the history: \<^emph>\<open>seen\<close> is any question with an attempt, \<^emph>\<open>correct\<close> one with
  an attempt that is correct, \<^emph>\<open>incorrect\<close> one with an attempt that is not,
  \<^emph>\<open>omitted\<close> one with an attempt that selected nothing, \<^emph>\<open>unused\<close> the rest of the
  catalogue, \<^emph>\<open>marked\<close> the questions whose flag is set.
\<close>

definition all_attempts :: "QuizHistory list \<Rightarrow> QuestionAttempt list" where
  "all_attempts quizHistory =
     concat (map (\<lambda>quiz. case questionAttempts quiz of None \<Rightarrow> [] | Some as \<Rightarrow> as) quizHistory)"

definition spec_seen :: "QuizHistory list \<Rightarrow> Question \<Rightarrow> bool" where
  "spec_seen quizHistory q = (\<exists>a \<in> set (all_attempts quizHistory). questionId a = qid q)"

definition spec_correct :: "QuizHistory list \<Rightarrow> Question \<Rightarrow> bool" where
  "spec_correct quizHistory q =
     (\<exists>a \<in> set (all_attempts quizHistory). questionId a = qid q \<and> isCorrect a)"

definition spec_incorrect :: "QuizHistory list \<Rightarrow> Question \<Rightarrow> bool" where
  "spec_incorrect quizHistory q =
     (\<exists>a \<in> set (all_attempts quizHistory). questionId a = qid q \<and> \<not> isCorrect a)"

definition spec_omitted :: "QuizHistory list \<Rightarrow> Question \<Rightarrow> bool" where
  "spec_omitted quizHistory q =
     (\<exists>a \<in> set (all_attempts quizHistory). questionId a = qid q \<and> a_selectedAnswer a = None)"

text \<open>A question matches at least one active filter.\<close>

definition spec_matches_any :: "QuizHistory list \<Rightarrow> QuestionFilter \<Rightarrow> Question \<Rightarrow> bool" where
  "spec_matches_any quizHistory f q =
     ((f_unused f \<and> \<not> spec_seen quizHistory q) \<or> (f_used f \<and> spec_seen quizHistory q) \<or>
      (f_correct f \<and> spec_correct quizHistory q) \<or> (f_incorrect f \<and> spec_incorrect quizHistory q) \<or>
      (f_marked f \<and> isMarked q) \<or> (f_omitted f \<and> spec_omitted quizHistory q))"

text \<open>The catalogue restricted to the retained questions, banks left empty dropped.\<close>

definition spec_filterCatalog :: "QBank list \<Rightarrow> QuizHistory list \<Rightarrow> QuestionFilter \<Rightarrow> QBank list" where
  "spec_filterCatalog qbanks quizHistory f =
     filter (\<lambda>qbank. questions qbank \<noteq> [])
       (map (\<lambda>qbank. qbank\<lparr> questions := filter (spec_matches_any quizHistory f) (questions qbank) \<rparr>)
            qbanks)"

text \<open>The number of catalogue questions whose \<open>isMarked\<close> flag is set.\<close>

definition spec_marked_count :: "QBank list \<Rightarrow> nat" where
  "spec_marked_count qbanks = length (filter isMarked (concat (map questions qbanks)))"

text \<open>
  The well-formedness of the inputs that the data model states: every record of the
  history carries a list of attempts, and question ids are unique in the catalogue.
\<close>

definition attempts_present :: "QuizHistory list \<Rightarrow> bool" where
  "attempts_present quizHistory = (\<forall>quiz \<in> set quizHistory. questionAttempts quiz \<noteq> None)"

definition unique_ids :: "QBank list \<Rightarrow> bool" where
  "unique_ids qbanks = distinct (map qid (concat (map questions qbanks)))"

section \<open>Sessions and sample data\<close>

text \<open>
  A session: the dashboard's start button on a fresh page, then the events in order.
  \<open>final\<close> reads an observation off a run that did not throw.
\<close>

definition session ::
  "(Question list \<Rightarrow> Question list) \<Rightarrow> QBank list \<Rightarrow> QuizHistory list \<Rightarrow> Dashboard_state \<Rightarrow>
     clock \<Rightarrow> event list \<Rightarrow> error + world" where
  "session shuffle qbanks quizHistory d clk evs =
     (case start shuffle qbanks quizHistory d initial_world of
        Inl e \<Rightarrow> Inl e
      | Inr (_, w) \<Rightarrow> run clk evs w)"

definition final :: "(world \<Rightarrow> 'a) \<Rightarrow> error + world \<Rightarrow> 'a option" where
  "final f r = (case r of Inl e \<Rightarrow> None | Inr w \<Rightarrow> Some (f w))"

text \<open>One outcome of the random sort: the order is left as it was.\<close>

definition unshuffled :: "Question list \<Rightarrow> Question list" where
  "unshuffled xs = xs"

definition sample_question :: "int \<Rightarrow> int \<Rightarrow> bool \<Rightarrow> Question" where
  "sample_question i answer flag =
     \<lparr> qid = i, qbankId = ''b1'', correctAnswer = answer, isMarked = flag \<rparr>"

definition sample_bank :: "Question list \<Rightarrow> QBank" where
  "sample_bank qs = \<lparr> b_id = ''b1'', questions = qs \<rparr>"

definition no_filter :: QuestionFilter where
  "no_filter = \<lparr> f_unused = False, f_used = False, f_incorrect = False, f_correct = False,
     f_marked = False, f_omitted = False \<rparr>"

definition sample_dashboard :: "int \<Rightarrow> bool \<Rightarrow> bool \<Rightarrow> QuestionFilter \<Rightarrow> Dashboard_state" where
  "sample_dashboard n tutor timer f =
     \<lparr> selectedQBank = ''b1'', questionCount = n, d_tutorMode = tutor, d_timerEnabled = timer,
       timeLimit = 60, filters = f \<rparr>"

definition sample_clock :: clock where
  "sample_clock = \<lparr> now = ''1700000000000'', today = ''1/1/2025'' \<rparr>"

definition sample_attempt :: "int \<Rightarrow> int option \<Rightarrow> bool \<Rightarrow> QuestionAttempt" where
  "sample_attempt i sel ok = \<lparr> questionId = i, a_selectedAnswer = sel, isCorrect = ok \<rparr>"

definition sample_record :: "QuestionAttempt list \<Rightarrow> QuizHistory" where
  "sample_record as =
     \<lparr> h_id = ''1'', h_date = ''1/1/2025'', h_score = 0, h_totalQuestions = int (length as),
       h_qbankId = ''b1'', questionAttempts = Some as \<rparr>"

definition only_correct :: QuestionFilter where
  "only_correct = no_filter\<lparr> f_correct := True \<rparr>"

definition only_marked :: QuestionFilter where
  "only_marked = no_filter\<lparr> f_marked := True \<rparr>"

text \<open>
  A page in the middle of a quiz over \<open>qs\<close>, showing the question at index \<open>i\<close>; in timer
  mode one timeout is pending.
\<close>

definition sample_world :: "Question list \<Rightarrow> int \<Rightarrow> bool \<Rightarrow> bool \<Rightarrow> world" where
  "sample_world qs i tutor timer =
     \<lparr> st = initial_state\<lparr> currentQuestions := qs, currentQuestionIndex := i, inQuiz := True,
                             tutorMode := tutor, timerEnabled := timer,
                             questionTimer := (if timer then Some 1 else None) \<rparr>,
       timers = (if timer then [(1, 60000, initial_state)] else []),
       next_handle = 2, emitted = [] \<rparr>"

section \<open>Properties\<close>

lemmas handler_defs = handleAnswerClick_def proceedToNextQuestion_def at_index_def
  handleStartQuiz_def slice0_def Let_def handleQuizNavigation_def toolbar_navigate_def
  handleQuit_def handleRestart_def startQuestionTimer_def clearTimeout_def handleContinue_def
  handleAnswerTimeout_def timerCallback_def timerFires_def handlePause_def or_default_def
  explanationPrevious_def QuizController_navigate_def

lemmas sample_defs = session_def start_def Dashboard_handleStartQuiz_def filteredQBanks_def
  some_filter_def sample_dashboard_def sample_bank_def sample_question_def no_filter_def
  unshuffled_def initial_world_def initial_state_def final_def sample_clock_def
  sample_attempt_def sample_record_def keep_question_def only_correct_def only_marked_def

subsection \<open>A three-question session without tutor mode or timer\<close>

text \<open>
  C3. The bank's three questions come out of the shuffle with correct answers at indices
  1, 0, 2, and the quiz is started with \<open>questionCount = 3\<close>, no tutor mode, no timer.
  Answering 1 gives score 1 and moves to the second question; answering 1 again (wrong)
  leaves the score at 1 and moves to the third; answering 2 gives score 2, shows the
  score card, and hands \<^verbatim>\<open>onQuizComplete\<close> one record with \<open>score = 2\<close> and
  \<open>totalQuestions = 3\<close>.
\<close>

theorem three_question_scenario:
  assumes "find (\<lambda>qb. b_id qb = bid) qbanks = Some qb"
    and "shuffle (questions qb) = [q0, q1, q2]"
    and "correctAnswer q0 = 1" and "correctAnswer q1 = 0" and "correctAnswer q2 = 2"
  shows "\<exists>w1 w2 w3 r.
     handleAnswerClick clk (st (handleStartQuiz shuffle qbanks c w bid 3 False False 60))
        (handleStartQuiz shuffle qbanks c w bid 3 False False 60) 1 = Inr w1 \<and>
     score (st w1) = 1 \<and> currentQuestionIndex (st w1) = 1 \<and> \<not> showScore (st w1) \<and>
     handleAnswerClick clk (st w1) w1 1 = Inr w2 \<and>
     score (st w2) = 1 \<and> currentQuestionIndex (st w2) = 2 \<and> \<not> showScore (st w2) \<and>
     handleAnswerClick clk (st w2) w2 2 = Inr w3 \<and>
     score (st w3) = 2 \<and> showScore (st w3) \<and>
     emitted w3 = emitted w @ [r] \<and> h_score r = 2 \<and> h_totalQuestions r = 3"
  using assms by (simp add: handler_defs)

theorem three_question_scenario_witness:
  "final (score \<circ> st)
     (session unshuffled
        [sample_bank [sample_question 1 1 False, sample_question 2 0 False, sample_question 3 2 False]]
        [] (sample_dashboard 3 False False no_filter) sample_clock
        [AnswerClick 1, AnswerClick 1, AnswerClick 2]) = Some 2 \<and>
   final (map h_score \<circ> emitted)
     (session unshuffled
        [sample_bank [sample_question 1 1 False, sample_question 2 0 False, sample_question 3 2 False]]
        [] (sample_dashboard 3 False False no_filter) sample_clock
        [AnswerClick 1, AnswerClick 1, AnswerClick 2]) = Some [2]"
proof -
  let ?qs = "[sample_question 1 1 False, sample_question 2 0 False, sample_question 3 2 False]"
  let ?w0 = "handleStartQuiz unshuffled [sample_bank ?qs] (st initial_world) initial_world
               ''b1'' 3 False False 60"
  have found: "find (\<lambda>qb. b_id qb = ''b1'') [sample_bank ?qs] = Some (sample_bank ?qs)"
    by (simp add: sample_bank_def)
  have order: "unshuffled (questions (sample_bank ?qs)) = ?qs"
    by (simp add: unshuffled_def sample_bank_def)
  obtain w1 w2 w3 r where steps:
    "handleAnswerClick sample_clock (st ?w0) ?w0 1 = Inr w1"
    "handleAnswerClick sample_clock (st w1) w1 1 = Inr w2"
    "handleAnswerClick sample_clock (st w2) w2 2 = Inr w3"
    "score (st w3) = 2" "emitted w3 = emitted initial_world @ [r]" "h_score r = 2"
    using three_question_scenario [where shuffle = unshuffled and bid = "''b1''"
        and qbanks = "[sample_bank ?qs]" and qb = "sample_bank ?qs"
        and ?q0.0 = "sample_question 1 1 False" and ?q1.0 = "sample_question 2 0 False"
        and ?q2.0 = "sample_question 3 2 False" and clk = sample_clock
        and c = "st initial_world" and w = initial_world] found order
    by (auto simp: sample_question_def)
  have started: "start unshuffled [sample_bank ?qs] [] (sample_dashboard 3 False False no_filter)
                 initial_world = Inr (None, ?w0)"
    by (simp add: start_def Dashboard_handleStartQuiz_def filteredQBanks_def some_filter_def
        sample_dashboard_def no_filter_def sample_bank_def)
  have "session unshuffled [sample_bank ?qs] [] (sample_dashboard 3 False False no_filter)
          sample_clock [AnswerClick 1, AnswerClick 1, AnswerClick 2] = Inr w3"
    by (simp add: session_def started steps)
  then show ?thesis
    using steps by (simp add: final_def initial_world_def)
qed

subsection \<open>The filtered catalogue\<close>

lemma attempts_of_present:
  "attempts_present H \<Longrightarrow>
   attempts_of H i = Inr (filter (\<lambda>a. questionId a = i) (all_attempts H))"
  by (induction H) (auto simp: attempts_present_def all_attempts_def)

lemma keep_question_spec:
  assumes "attempts_present H"
  shows "keep_question H f q = Inr (spec_matches_any H f q)"
proof -
  let ?as = "filter (\<lambda>a. questionId a = qid q) (all_attempts H)"
  have used: "(length ?as > 0) = spec_seen H q"
    by (auto simp: spec_seen_def filter_empty_conv)
  have cor: "list_ex isCorrect ?as = spec_correct H q"
    by (auto simp: spec_correct_def list_ex_iff)
  have inc: "list_ex (\<lambda>a. \<not> isCorrect a) ?as = spec_incorrect H q"
    by (auto simp: spec_incorrect_def list_ex_iff)
  have om: "list_ex (\<lambda>a. a_selectedAnswer a = None) ?as = spec_omitted H q"
    by (auto simp: spec_omitted_def list_ex_iff)
  show ?thesis
    unfolding keep_question_def attempts_of_present [OF assms] spec_matches_any_def
    by (simp only: sum.case Let_def used cor inc om)
qed

lemma filter_questions_spec:
  "attempts_present H \<Longrightarrow>
   filter_questions H f qs = Inr (filter (spec_matches_any H f) qs)"
  by (induction qs) (simp_all add: keep_question_spec)

lemma map_qbanks_spec:
  "attempts_present H \<Longrightarrow>
   map_qbanks H f bs =
     Inr (map (\<lambda>qbank. qbank\<lparr> questions := filter (spec_matches_any H f) (questions qbank) \<rparr>) bs)"
  by (induction bs) (simp_all add: filter_questions_spec)

text \<open>
  C9. \<^verbatim>\<open>filteredQBanks\<close> returns the catalogue as it is when no filter is active.
  Otherwise, on a history whose records carry their attempts, it keeps a question exactly
  when the question matches at least one active filter, by the membership tests of
  \<open>classify\<close> over all attempts of the history, and drops the banks left without a
  question.
\<close>

theorem filteredQBanks_refines_filterCatalog:
  "(\<not> some_filter f \<longrightarrow> filteredQBanks qbanks H f = Inr qbanks) \<and>
   (some_filter f \<and> attempts_present H \<longrightarrow>
      filteredQBanks qbanks H f = Inr (spec_filterCatalog qbanks H f))"
  by (simp add: filteredQBanks_def spec_filterCatalog_def map_qbanks_spec)

theorem filteredQBanks_refines_filterCatalog_witness:
  "filteredQBanks
     [sample_bank [sample_question 1 0 False, sample_question 2 0 False],
      \<lparr> b_id = ''b2'', questions = [sample_question 3 0 True] \<rparr>]
     [sample_record [sample_attempt 1 (Some 0) True, sample_attempt 2 (Some 1) False]]
     no_filter =
   Inr [sample_bank [sample_question 1 0 False, sample_question 2 0 False],
        \<lparr> b_id = ''b2'', questions = [sample_question 3 0 True] \<rparr>] \<and>
   filteredQBanks
     [sample_bank [sample_question 1 0 False, sample_question 2 0 False],
      \<lparr> b_id = ''b2'', questions = [sample_question 3 0 True] \<rparr>]
     [sample_record [sample_attempt 1 (Some 0) True, sample_attempt 2 (Some 1) False]]
     only_correct =
   Inr [sample_bank [sample_question 1 0 False]]"
proof -
  let ?B = "[sample_bank [sample_question 1 0 False, sample_question 2 0 False],
             \<lparr> b_id = ''b2'', questions = [sample_question 3 0 True] \<rparr>]"
  let ?H = "[sample_record [sample_attempt 1 (Some 0) True, sample_attempt 2 (Some 1) False]]"
  have off: "\<not> some_filter no_filter"
    by (simp add: some_filter_def no_filter_def)
  have on: "some_filter only_correct"
    by (simp add: some_filter_def only_correct_def no_filter_def)
  have present: "attempts_present ?H"
    by (simp add: attempts_present_def sample_record_def)
  have kept: "spec_filterCatalog ?B ?H only_correct = [sample_bank [sample_question 1 0 False]]"
    by (simp add: spec_filterCatalog_def spec_matches_any_def spec_correct_def all_attempts_def
        only_correct_def no_filter_def sample_record_def sample_attempt_def sample_bank_def
        sample_question_def)
  show ?thesis
    using filteredQBanks_refines_filterCatalog [of no_filter ?B ?H]
      filteredQBanks_refines_filterCatalog [of only_correct ?B ?H] off on present kept
    by simp
qed

subsection \<open>The marked count\<close>

lemma scan_history_present:
  "attempts_present H \<Longrightarrow> \<exists>s. scan_history s0 H = Inr s"
  by (induction H arbitrary: s0) (auto simp: attempts_present_def)

lemma mark_fold:
  "foldl (\<lambda>m question. if isMarked question then insert (qid question) m else m) m qs =
     m \<union> qid ` set (filter isMarked qs)"
  by (induction qs arbitrary: m) auto

lemma marked_fold:
  "foldl (\<lambda>m qbank. foldl (\<lambda>m question. if isMarked question then insert (qid question) m else m)
                         m (questions qbank)) m bs =
     m \<union> qid ` set (filter isMarked (concat (map questions bs)))"
  by (induction bs arbitrary: m) (auto simp: mark_fold)

lemma card_marked_ids:
  assumes "unique_ids qbanks"
  shows "card (marked_ids qbanks) = spec_marked_count qbanks"
proof -
  let ?qs = "concat (map questions qbanks)"
  have "marked_ids qbanks = set (map qid (filter isMarked ?qs))"
    by (simp add: marked_ids_def marked_fold)
  moreover have "distinct (map qid (filter isMarked ?qs))"
    using assms by (simp add: unique_ids_def distinct_map_filter)
  ultimately have "card (marked_ids qbanks) = length (map qid (filter isMarked ?qs))"
    by (simp only: distinct_card)
  then show ?thesis by (simp add: spec_marked_count_def)
qed

text \<open>
  C8, as stated, fails: with an empty history \<^verbatim>\<open>metrics\<close> skips the scan for marked
  questions, so a catalogue with one marked question has a marked count of 0.
\<close>

theorem marked_count_empty_history_counterexample:
  "map_sum id m_marked (metrics [sample_bank [sample_question 1 0 True]] []) = Inr 0 \<and>
   spec_marked_count [sample_bank [sample_question 1 0 True]] = 1"
  by (simp add: metrics_def spec_marked_count_def sample_defs no_ids_def)

text \<open>
  C8, amended. On a catalogue with unique question ids and a history whose records carry
  their attempts, the marked count of \<^verbatim>\<open>metrics\<close> is the number of catalogue questions
  whose \<open>isMarked\<close> flag is set whenever the history is not empty, whatever it holds, and
  0 when the history is empty.
\<close>

theorem marked_count_gated_by_history:
  assumes "attempts_present H" and "unique_ids qbanks"
  shows "\<exists>m. metrics qbanks H = Inr m \<and>
              m_marked m = (if H = [] then 0 else spec_marked_count qbanks)"
proof -
  obtain s where "scan_history no_ids H = Inr s"
    using scan_history_present [OF assms(1)] by blast
  then show ?thesis
    by (simp add: metrics_def Let_def card_marked_ids [OF assms(2)])
qed

theorem marked_count_gated_by_history_witness:
  "attempts_present [sample_record [sample_attempt 1 (Some 0) True]] \<and>
   unique_ids [sample_bank [sample_question 1 0 True, sample_question 2 1 False]] \<and>
   (\<exists>m. metrics [sample_bank [sample_question 1 0 True, sample_question 2 1 False]]
            [sample_record [sample_attempt 1 (Some 0) True]] = Inr m \<and> m_marked m = 1)"
proof -
  have h1: "attempts_present [sample_record [sample_attempt 1 (Some 0) True]]"
    by (simp add: attempts_present_def sample_defs)
  have h2: "unique_ids [sample_bank [sample_question 1 0 True, sample_question 2 1 False]]"
    by (simp add: unique_ids_def sample_defs)
  have "spec_marked_count [sample_bank [sample_question 1 0 True, sample_question 2 1 False]] = 1"
    by (simp add: spec_marked_count_def sample_defs)
  with marked_count_gated_by_history [OF h1 h2] h1 h2 show ?thesis by simp
qed

subsection \<open>The id sets of the metrics\<close>

lemma add_attempt_sets:
  "seenQuestionIds (add_attempt s a) = insert (questionId a) (seenQuestionIds s)"
  "correctQuestionIds (add_attempt s a) =
     (if a_selectedAnswer a \<noteq> None \<and> isCorrect a
      then insert (questionId a) (correctQuestionIds s) else correctQuestionIds s)"
  "incorrectQuestionIds (add_attempt s a) =
     (if a_selectedAnswer a = None \<or> \<not> isCorrect a
      then insert (questionId a) (incorrectQuestionIds s) else incorrectQuestionIds s)"
  "omittedQuestionIds (add_attempt s a) =
     (if a_selectedAnswer a = None
      then insert (questionId a) (omittedQuestionIds s) else omittedQuestionIds s)"
  by (simp_all add: add_attempt_def Let_def)

lemma fold_seen:
  "seenQuestionIds (foldl add_attempt s as) = seenQuestionIds s \<union> set (map questionId as)"
  by (induction as arbitrary: s) (simp_all add: add_attempt_sets)

lemma fold_correct:
  "correctQuestionIds (foldl add_attempt s as) =
     correctQuestionIds s \<union>
       set (map questionId (filter (\<lambda>a. a_selectedAnswer a \<noteq> None \<and> isCorrect a) as))"
  by (induction as arbitrary: s) (simp_all add: add_attempt_sets)

lemma fold_incorrect:
  "incorrectQuestionIds (foldl add_attempt s as) =
     incorrectQuestionIds s \<union>
       set (map questionId (filter (\<lambda>a. a_selectedAnswer a = None \<or> \<not> isCorrect a) as))"
  by (induction as arbitrary: s) (simp_all add: add_attempt_sets)

lemma fold_omitted:
  "omittedQuestionIds (foldl add_attempt s as) =
     omittedQuestionIds s \<union>
       set (map questionId (filter (\<lambda>a. a_selectedAnswer a = None) as))"
  by (induction as arbitrary: s) (simp_all add: add_attempt_sets)

lemma scan_history_sets:
  "attempts_present H \<Longrightarrow>
   \<exists>s'. scan_history s H = Inr s' \<and>
     seenQuestionIds s' = seenQuestionIds s \<union> set (map questionId (all_attempts H)) \<and>
     correctQuestionIds s' = correctQuestionIds s \<union>
       set (map questionId (filter (\<lambda>a. a_selectedAnswer a \<noteq> None \<and> isCorrect a) (all_attempts H))) \<and>
     incorrectQuestionIds s' = incorrectQuestionIds s \<union>
       set (map questionId (filter (\<lambda>a. a_selectedAnswer a = None \<or> \<not> isCorrect a) (all_attempts H))) \<and>
     omittedQuestionIds s' = omittedQuestionIds s \<union>
       set (map questionId (filter (\<lambda>a. a_selectedAnswer a = None) (all_attempts H)))"
proof (induction H arbitrary: s)
  case Nil
  show ?case by (simp add: all_attempts_def)
next
  case (Cons quiz H)
  from Cons.prems obtain as where as: "questionAttempts quiz = Some as"
    and rest: "attempts_present H"
    by (auto simp: attempts_present_def)
  have all: "all_attempts (quiz # H) = as @ all_attempts H"
    by (simp add: all_attempts_def as)
  from Cons.IH [OF rest, of "foldl add_attempt s as"] obtain s' where
    "scan_history (foldl add_attempt s as) H = Inr s'"
    "seenQuestionIds s' = seenQuestionIds (foldl add_attempt s as) \<union> set (map questionId (all_attempts H))"
    "correctQuestionIds s' = correctQuestionIds (foldl add_attempt s as) \<union>
       set (map questionId (filter (\<lambda>a. a_selectedAnswer a \<noteq> None \<and> isCorrect a) (all_attempts H)))"
    "incorrectQuestionIds s' = incorrectQuestionIds (foldl add_attempt s as) \<union>
       set (map questionId (filter (\<lambda>a. a_selectedAnswer a = None \<or> \<not> isCorrect a) (all_attempts H)))"
    "omittedQuestionIds s' = omittedQuestionIds (foldl add_attempt s as) \<union>
       set (map questionId (filter (\<lambda>a. a_selectedAnswer a = None) (all_attempts H)))"
    by blast
  then show ?case
    by (simp add: all as fold_seen fold_correct fold_incorrect fold_omitted Un_assoc)
qed

text \<open>
  The id sets that \<^verbatim>\<open>metrics\<close> collects are the same tests, on attempts that are not
  both omitted and correct.
\<close>

lemma classify_membership:
  assumes "attempts_present H"
    and "\<forall>a \<in> set (all_attempts H). a_selectedAnswer a = None \<longrightarrow> \<not> isCorrect a"
  shows "\<exists>s. scan_history no_ids H = Inr s \<and>
     (qid q \<in> seenQuestionIds s \<longleftrightarrow> spec_seen H q) \<and>
     (qid q \<in> correctQuestionIds s \<longleftrightarrow> spec_correct H q) \<and>
     (qid q \<in> incorrectQuestionIds s \<longleftrightarrow> spec_incorrect H q) \<and>
     (qid q \<in> omittedQuestionIds s \<longleftrightarrow> spec_omitted H q)"
proof -
  from scan_history_sets [OF assms(1), of no_ids] obtain s where s:
    "scan_history no_ids H = Inr s"
    "seenQuestionIds s = set (map questionId (all_attempts H))"
    "correctQuestionIds s =
       set (map questionId (filter (\<lambda>a. a_selectedAnswer a \<noteq> None \<and> isCorrect a) (all_attempts H)))"
    "incorrectQuestionIds s =
       set (map questionId (filter (\<lambda>a. a_selectedAnswer a = None \<or> \<not> isCorrect a) (all_attempts H)))"
    "omittedQuestionIds s =
       set (map questionId (filter (\<lambda>a. a_selectedAnswer a = None) (all_attempts H)))"
    by (auto simp: no_ids_def)
  have "qid q \<in> seenQuestionIds s \<longleftrightarrow> spec_seen H q"
    unfolding s spec_seen_def by force
  moreover have "qid q \<in> correctQuestionIds s \<longleftrightarrow> spec_correct H q"
    unfolding s spec_correct_def using assms(2) by force
  moreover have "qid q \<in> incorrectQuestionIds s \<longleftrightarrow> spec_incorrect H q"
    unfolding s spec_incorrect_def using assms(2) by force
  moreover have "qid q \<in> omittedQuestionIds s \<longleftrightarrow> spec_omitted H q"
    unfolding s spec_omitted_def by force
  ultimately show ?thesis using s(1) by blast
qed

subsection \<open>A timeout in tutor mode, then Continue\<close>

text \<open>
  C10. In tutor mode the timeout handler shows the explanation and leaves
  \<open>selectedAnswer\<close> empty; Continue then proceeds with \<^verbatim>\<open>selectedAnswer || 0\<close>, that is
  with option 0. On the last question the record handed to \<^verbatim>\<open>onQuizComplete\<close> therefore
  has the running score plus one exactly when the question's correct answer is option 0.
\<close>

theorem tutor_timeout_then_continue:
  assumes "tutorMode c"
    and "selectedAnswer (st w) = None"
    and "currentQuestionIndex (st w) = int (length (currentQuestions (st w))) - 1"
    and "at_index (currentQuestions (st w)) (currentQuestionIndex (st w)) = Some q"
  shows "\<exists>w1 w2 r.
     handleAnswerTimeout clk c w = Inr w1 \<and> isAnswered (st w1) \<and> showExplanation (st w1) \<and>
     selectedAnswer (st w1) = None \<and>
     handleContinue clk (st w1) w1 = Inr w2 \<and> showScore (st w2) \<and>
     emitted w2 = emitted w @ [r] \<and>
     h_score r = score (st w) + (if correctAnswer q = 0 then 1 else 0) \<and>
     h_totalQuestions r = int (length (currentQuestions (st w)))"
  using assms
  by (auto simp: handleAnswerTimeout_def handleContinue_def proceedToNextQuestion_def
      or_default_def at_index_def split: if_splits)

theorem tutor_timeout_then_continue_witness:
  "(\<exists>w1 w2. handleAnswerTimeout sample_clock
               (st (sample_world [sample_question 1 0 False] 0 True True))
               (sample_world [sample_question 1 0 False] 0 True True) = Inr w1 \<and>
            handleContinue sample_clock (st w1) w1 = Inr w2 \<and>
            map h_score (emitted w2) = [1]) \<and>
   (\<exists>w1 w2. handleAnswerTimeout sample_clock
               (st (sample_world [sample_question 1 2 False] 0 True True))
               (sample_world [sample_question 1 2 False] 0 True True) = Inr w1 \<and>
            handleContinue sample_clock (st w1) w1 = Inr w2 \<and>
            map h_score (emitted w2) = [0])"
proof -
  have a: "\<exists>w1 w2. handleAnswerTimeout sample_clock
               (st (sample_world [sample_question 1 k False] 0 True True))
               (sample_world [sample_question 1 k False] 0 True True) = Inr w1 \<and>
            handleContinue sample_clock (st w1) w1 = Inr w2 \<and>
            map h_score (emitted w2) = [if k = 0 then 1 else 0]" for k
    using tutor_timeout_then_continue
        [where c = "st (sample_world [sample_question 1 k False] 0 True True)"
        and w = "sample_world [sample_question 1 k False] 0 True True"
        and q = "sample_question 1 k False" and clk = sample_clock]
    by (auto simp: sample_world_def initial_state_def at_index_def sample_question_def)
  from a [of 0] a [of 2] show ?thesis by simp
qed

subsection \<open>Backward navigation\<close>

text \<open>
  C7, as stated, fails: in a timer session the page's Previous button is enabled on the
  second question, and \<^verbatim>\<open>handleQuizNavigation('prev')\<close> steps back to the first.
\<close>

theorem previous_in_timer_mode_counterexample:
  "final (currentQuestionIndex \<circ> st)
     (session unshuffled [sample_bank [sample_question 1 0 False, sample_question 2 0 False]] []
        (sample_dashboard 2 False True no_filter) sample_clock [AnswerClick 0]) = Some 1 \<and>
   final (timerEnabled \<circ> st)
     (session unshuffled [sample_bank [sample_question 1 0 False, sample_question 2 0 False]] []
        (sample_dashboard 2 False True no_filter) sample_clock [AnswerClick 0]) = Some True \<and>
   final (currentQuestionIndex \<circ> st)
     (session unshuffled [sample_bank [sample_question 1 0 False, sample_question 2 0 False]] []
        (sample_dashboard 2 False True no_filter) sample_clock [AnswerClick 0, Navigate Prev]) = Some 0"
  by (simp add: sample_defs handler_defs)

text \<open>
  C7, amended. \<^verbatim>\<open>handleQuizNavigation('prev')\<close> does nothing unless
  \<open>currentQuestionIndex > 0\<close>, and in every case it leaves the score as it is and hands
  no record to \<^verbatim>\<open>onQuizComplete\<close>. The Previous button of \<^verbatim>\<open>QuizController\<close> is
  disabled when \<open>timerEnabled\<close>: there Previous is a no-op. The handler itself has no such
  guard: called with \<open>timerEnabled\<close> beyond the first question it steps back one question
  and arms a new timeout.
\<close>

theorem previous_navigation_frame:
  "(currentQuestionIndex c \<le> 0 \<longrightarrow> handleQuizNavigation clk c w Prev = Inr w) \<and>
   (\<exists>w'. handleQuizNavigation clk c w Prev = Inr w' \<and>
          score (st w') = score (st w) \<and> emitted w' = emitted w) \<and>
   (timerEnabled (st w) \<longrightarrow> QuizController_navigate clk w Prev = Inr w) \<and>
   (0 < currentQuestionIndex c \<and> timerEnabled c \<longrightarrow>
      (\<exists>w'. handleQuizNavigation clk c w Prev = Inr w' \<and>
             currentQuestionIndex (st w') = currentQuestionIndex (st w) - 1 \<and>
             questionTimer (st w') = Some (next_handle w) \<and>
             next_handle w \<in> fst ` set (timers w')))"
  by (auto simp: handleQuizNavigation_def QuizController_navigate_def startQuestionTimer_def
      clearTimeout_def Let_def split: option.splits)

theorem previous_navigation_frame_witness:
  "handleQuizNavigation sample_clock
     (st (sample_world [sample_question 1 0 False, sample_question 2 0 False] 0 False True))
     (sample_world [sample_question 1 0 False, sample_question 2 0 False] 0 False True) Prev
     = Inr (sample_world [sample_question 1 0 False, sample_question 2 0 False] 0 False True) \<and>
   QuizController_navigate sample_clock
     (sample_world [sample_question 1 0 False, sample_question 2 0 False] 1 False True) Prev
     = Inr (sample_world [sample_question 1 0 False, sample_question 2 0 False] 1 False True) \<and>
   (\<exists>w'. handleQuizNavigation sample_clock
            (st (sample_world [sample_question 1 0 False, sample_question 2 0 False] 1 False True))
            (sample_world [sample_question 1 0 False, sample_question 2 0 False] 1 False True) Prev
            = Inr w' \<and>
          currentQuestionIndex (st w') = 0 \<and> questionTimer (st w') = Some 2 \<and> score (st w') = 0)"
proof -
  let ?qs = "[sample_question 1 0 False, sample_question 2 0 False]"
  have first: "currentQuestionIndex (st (sample_world ?qs 0 False True)) \<le> 0"
    by (simp add: sample_world_def initial_state_def)
  have second: "0 < currentQuestionIndex (st (sample_world ?qs 1 False True))"
    "currentQuestionIndex (st (sample_world ?qs 1 False True)) = 1"
    "timerEnabled (st (sample_world ?qs 1 False True))"
    "next_handle (sample_world ?qs 1 False True) = 2"
    "score (st (sample_world ?qs 1 False True)) = 0"
    by (simp_all add: sample_world_def initial_state_def)
  show ?thesis
    using previous_navigation_frame [of "st (sample_world ?qs 0 False True)" sample_clock
        "sample_world ?qs 0 False True"]
      previous_navigation_frame [of "st (sample_world ?qs 1 False True)" sample_clock
        "sample_world ?qs 1 False True"]
      first second
    by auto
qed

subsection \<open>Answers and timeouts\<close>

text \<open>
  The half of the exclusion that holds: once a tutor-mode timeout has set \<open>isAnswered\<close>,
  an answer clicked in the render that follows is rejected.
\<close>

lemma answer_after_tutor_timeout_rejected:
  "tutorMode c \<Longrightarrow>
   \<exists>w1. handleAnswerTimeout clk c w = Inr w1 \<and> isAnswered (st w1) \<and>
         handleAnswerClick clk (st w1) w1 i = Inr w1"
  by (simp add: handleAnswerTimeout_def handleAnswerClick_def)

text \<open>
  C4. A manual answer should cancel the pending timeout, so that a timeout firing
  afterwards does nothing and the manual answer stands. \<^verbatim>\<open>handleAnswerClick\<close> cancels
  nothing, and the callback's test \<^verbatim>\<open>!isAnswered && !isPaused\<close> reads the variables of
  the render that armed the timeout. In a tutor-mode session with a timer over two
  questions, the timeout armed by \<^verbatim>\<open>handleStartQuiz\<close> (handle 1) belongs to the
  dashboard's render, where nothing is answered, tutor mode is off and no questions are
  loaded. After the first question has been answered by hand it is still pending, the
  page shows the first question with option 0 selected; when it fires, the page moves on
  to the second question, and the selection and \<open>isAnswered\<close> are cleared.
\<close>

theorem timeout_after_answer_advances:
  "final (map fst \<circ> timers)
     (session unshuffled [sample_bank [sample_question 1 0 False, sample_question 2 0 False]] []
        (sample_dashboard 2 True True no_filter) sample_clock [AnswerClick 0]) = Some [1] \<and>
   final (currentQuestionIndex \<circ> st)
     (session unshuffled [sample_bank [sample_question 1 0 False, sample_question 2 0 False]] []
        (sample_dashboard 2 True True no_filter) sample_clock [AnswerClick 0]) = Some 0 \<and>
   final (selectedAnswer \<circ> st)
     (session unshuffled [sample_bank [sample_question 1 0 False, sample_question 2 0 False]] []
        (sample_dashboard 2 True True no_filter) sample_clock [AnswerClick 0]) = Some (Some 0) \<and>
   final (isAnswered \<circ> st)
     (session unshuffled [sample_bank [sample_question 1 0 False, sample_question 2 0 False]] []
        (sample_dashboard 2 True True no_filter) sample_clock [AnswerClick 0]) = Some True \<and>
   final (currentQuestionIndex \<circ> st)
     (session unshuffled [sample_bank [sample_question 1 0 False, sample_question 2 0 False]] []
        (sample_dashboard 2 True True no_filter) sample_clock [AnswerClick 0, TimerFires 1]) = Some 1 \<and>
   final (selectedAnswer \<circ> st)
     (session unshuffled [sample_bank [sample_question 1 0 False, sample_question 2 0 False]] []
        (sample_dashboard 2 True True no_filter) sample_clock [AnswerClick 0, TimerFires 1]) = Some None \<and>
   final (isAnswered \<circ> st)
     (session unshuffled [sample_bank [sample_question 1 0 False, sample_question 2 0 False]] []
        (sample_dashboard 2 True True no_filter) sample_clock [AnswerClick 0, TimerFires 1]) = Some False"
  by (simp add: sample_defs handler_defs)

subsection \<open>Starting a quiz\<close>

lemma map_qbanks_ids:
  "map_qbanks H f bs = Inr banks \<Longrightarrow> map b_id banks = map b_id bs"
  by (induction bs arbitrary: banks) (auto split: sum.splits)

lemma filteredQBanks_ids:
  "filteredQBanks qbanks H f = Inr banks \<Longrightarrow> b_id ` set banks \<subseteq> b_id ` set qbanks"
proof (cases "some_filter f")
  case False
  assume "filteredQBanks qbanks H f = Inr banks"
  with False show ?thesis by (simp add: filteredQBanks_def)
next
  case True
  assume "filteredQBanks qbanks H f = Inr banks"
  with True obtain bs where bs: "map_qbanks H f qbanks = Inr bs"
    and banks: "banks = filter (\<lambda>qbank. length (questions qbank) > 0) bs"
    by (auto simp: filteredQBanks_def split: sum.splits)
  have "b_id ` set bs = b_id ` set qbanks"
    using map_qbanks_ids [OF bs] by (metis set_map)
  with banks show ?thesis by auto
qed

lemma find_filtered_None:
  assumes "filteredQBanks qbanks H f = Inr banks"
    and "find (\<lambda>qb. b_id qb = k) qbanks = None"
  shows "find (\<lambda>qb. b_id qb = k) banks = None"
proof -
  have "k \<notin> b_id ` set qbanks"
    using assms(2) by (auto simp: find_None_iff)
  with filteredQBanks_ids [OF assms(1)] have "k \<notin> b_id ` set banks" by blast
  then show ?thesis by (auto simp: find_None_iff)
qed

text \<open>
  C6, as stated, fails: with \<open>questionCount = 0\<close> the start button's handler does
  nothing at all; no message is shown.
\<close>

theorem start_zero_count_counterexample:
  "start unshuffled [sample_bank [sample_question 1 0 False]] []
     (sample_dashboard 0 False False no_filter) initial_world = Inr (None, initial_world)"
  by (simp add: sample_defs)

text \<open>
  C6, amended. Starting with no bank selected, with \<open>questionCount \<le> 0\<close>, or with a
  bank id that the catalogue does not hold, is a silent no-op: no message and no session.
  Starting with a bank of the filtered catalogue and a \<open>questionCount\<close> above the number
  of its retained questions shows the ``Invalid Question Count'' message and enters no
  session.
\<close>

theorem start_rejections:
  "(selectedQBank d = [] \<or> questionCount d \<le> 0 \<longrightarrow>
      start shuffle qbanks H d w = Inr (None, w)) \<and>
   (filteredQBanks qbanks H (filters d) = Inr banks \<and>
    find (\<lambda>qb. b_id qb = selectedQBank d) qbanks = None \<longrightarrow>
      start shuffle qbanks H d w = Inr (None, w)) \<and>
   (selectedQBank d \<noteq> [] \<and> filteredQBanks qbanks H (filters d) = Inr banks \<and>
    find (\<lambda>qb. b_id qb = selectedQBank d) banks = Some fb \<and>
    int (length (questions fb)) < questionCount d \<longrightarrow>
      start shuffle qbanks H d w = Inr (Some Invalid_Question_Count, w))"
proof (intro conjI impI)
  assume "selectedQBank d = [] \<or> questionCount d \<le> 0"
  then show "start shuffle qbanks H d w = Inr (None, w)"
    by (auto simp: start_def Dashboard_handleStartQuiz_def)
next
  assume a: "filteredQBanks qbanks H (filters d) = Inr banks \<and>
    find (\<lambda>qb. b_id qb = selectedQBank d) qbanks = None"
  then have "find (\<lambda>qb. b_id qb = selectedQBank d) banks = None"
    using find_filtered_None by blast
  with a show "start shuffle qbanks H d w = Inr (None, w)"
    by (simp add: start_def Dashboard_handleStartQuiz_def handleStartQuiz_def)
next
  assume "selectedQBank d \<noteq> [] \<and> filteredQBanks qbanks H (filters d) = Inr banks \<and>
    find (\<lambda>qb. b_id qb = selectedQBank d) banks = Some fb \<and>
    int (length (questions fb)) < questionCount d"
  then show "start shuffle qbanks H d w = Inr (Some Invalid_Question_Count, w)"
    by (auto simp: start_def Dashboard_handleStartQuiz_def)
qed

theorem start_rejections_witness:
  "start unshuffled [sample_bank [sample_question 1 0 False]] []
     (sample_dashboard (- 1) False False no_filter) initial_world = Inr (None, initial_world) \<and>
   start unshuffled [] [] (sample_dashboard 1 False False no_filter) initial_world
     = Inr (None, initial_world) \<and>
   start unshuffled [sample_bank [sample_question 1 0 False]] []
     (sample_dashboard 2 False False no_filter) initial_world
     = Inr (Some Invalid_Question_Count, initial_world)"
proof -
  let ?B = "[sample_bank [sample_question 1 0 False]]"
  have f1: "filteredQBanks ?B [] (filters (sample_dashboard 2 False False no_filter)) = Inr ?B"
    by (simp add: sample_defs)
  have f0: "filteredQBanks [] [] (filters (sample_dashboard 1 False False no_filter)) = Inr []"
    by (simp add: sample_defs)
  have found: "find (\<lambda>qb. b_id qb = selectedQBank (sample_dashboard 2 False False no_filter)) ?B
                 = Some (sample_bank [sample_question 1 0 False])"
    by (simp add: sample_defs)
  show ?thesis
    using start_rejections [where d = "sample_dashboard (- 1) False False no_filter"
        and shuffle = unshuffled and qbanks = ?B and H = "[]" and w = initial_world]
      start_rejections [where d = "sample_dashboard 1 False False no_filter"
        and shuffle = unshuffled and qbanks = "[]" and H = "[]" and w = initial_world
        and banks = "[]"]
      start_rejections [where d = "sample_dashboard 2 False False no_filter"
        and shuffle = unshuffled and qbanks = ?B and H = "[]" and w = initial_world
        and banks = ?B and fb = "sample_bank [sample_question 1 0 False]"]
      f1 f0 found
    by (simp add: sample_dashboard_def sample_bank_def)
qed

text \<open>
  A bank that was selected and then filtered out passes the count check (the comparison
  is with \<^verbatim>\<open>undefined\<close>), and the quiz starts.
\<close>

lemma filtered_out_bank_starts:
  "filteredQBanks [sample_bank [sample_question 1 0 False]] [] only_marked = Inr [] \<and>
   final (inQuiz \<circ> st)
     (session unshuffled [sample_bank [sample_question 1 0 False]] []
        (sample_dashboard 1 False False only_marked) sample_clock []) = Some True"
  by (simp add: sample_defs handler_defs)

text \<open>
  What \<^verbatim>\<open>handleStartQuiz\<close> samples: \<open>questionCount\<close> distinct questions of the bank
  that the whole catalogue holds under the id, whatever the shuffle's rearrangement.
\<close>

lemma handleStartQuiz_sample:
  assumes "find (\<lambda>qb. b_id qb = bid) qbanks = Some qb"
    and "mset (shuffle (questions qb)) = mset (questions qb)"
    and "distinct (questions qb)"
    and "1 \<le> n" and "n \<le> int (length (questions qb))"
  shows "int (length (currentQuestions (st (handleStartQuiz shuffle qbanks c w bid n tutor timer limit)))) = n \<and>
         distinct (currentQuestions (st (handleStartQuiz shuffle qbanks c w bid n tutor timer limit))) \<and>
         set (currentQuestions (st (handleStartQuiz shuffle qbanks c w bid n tutor timer limit)))
           \<subseteq> set (questions qb)"
proof -
  have len: "length (shuffle (questions qb)) = length (questions qb)"
    using assms(2) by (metis size_mset)
  have dist: "distinct (shuffle (questions qb))"
    using assms(2,3) by (metis mset_eq_imp_distinct_iff)
  have sub: "set (shuffle (questions qb)) = set (questions qb)"
    using assms(2) by (metis mset_eq_setD)
  have cq: "currentQuestions (st (handleStartQuiz shuffle qbanks c w bid n tutor timer limit))
              = take (nat n) (shuffle (questions qb))"
    using assms(1,4)
    by (simp add: handleStartQuiz_def slice0_def Let_def startQuestionTimer_def
        clearTimeout_def split: option.splits)
  show ?thesis
    unfolding cq using assms(4,5) len dist sub
    by (auto dest: in_set_takeD)
qed

text \<open>
  C5. The sampled questions are meant to come from the filtered bank. With only the
  \<^emph>\<open>marked\<close> filter active, the bank below keeps its one marked question, and a quiz of
  one question is accepted; the page then samples from the unfiltered bank and the session
  holds the unmarked question.
\<close>

theorem sample_ignores_filters:
  "filteredQBanks [sample_bank [sample_question 1 0 False, sample_question 2 0 True]] [] only_marked
     = Inr [sample_bank [sample_question 2 0 True]] \<and>
   final (currentQuestions \<circ> st)
     (session unshuffled [sample_bank [sample_question 1 0 False, sample_question 2 0 True]] []
        (sample_dashboard 1 False False only_marked) sample_clock [])
     = Some [sample_question 1 0 False]"
  by (simp add: sample_defs handler_defs)

subsection \<open>The emitted records\<close>

lemma emitted_without_attempts:
  "step clk e w = Inr w' \<Longrightarrow> \<forall>r\<in>set (emitted w). questionAttempts r = None \<Longrightarrow>
   \<forall>r\<in>set (emitted w'). questionAttempts r = None"
  by (cases e) (auto simp: handler_defs split: if_splits option.splits prod.splits direction.splits)

text \<open>
  C1. A record emitted at the end of a session should carry the session's attempts.
  Quitting a five-question quiz after two answers emits one record with
  \<open>totalQuestions = 5\<close> and no \<open>questionAttempts\<close> at all, and the dashboard's
  \<^verbatim>\<open>metrics\<close> throws on a history that holds it.
\<close>

theorem quit_record_has_no_attempts:
  "final (map h_totalQuestions \<circ> emitted)
     (session unshuffled
        [sample_bank [sample_question 1 0 False, sample_question 2 0 False, sample_question 3 0 False,
                      sample_question 4 0 False, sample_question 5 0 False]] []
        (sample_dashboard 5 False False no_filter) sample_clock
        [AnswerClick 0, AnswerClick 1, Quit]) = Some [5] \<and>
   final (map questionAttempts \<circ> emitted)
     (session unshuffled
        [sample_bank [sample_question 1 0 False, sample_question 2 0 False, sample_question 3 0 False,
                      sample_question 4 0 False, sample_question 5 0 False]] []
        (sample_dashboard 5 False False no_filter) sample_clock
        [AnswerClick 0, AnswerClick 1, Quit]) = Some [None] \<and>
   final (metrics
            [sample_bank [sample_question 1 0 False, sample_question 2 0 False, sample_question 3 0 False,
                          sample_question 4 0 False, sample_question 5 0 False]] \<circ> emitted)
     (session unshuffled
        [sample_bank [sample_question 1 0 False, sample_question 2 0 False, sample_question 3 0 False,
                      sample_question 4 0 False, sample_question 5 0 False]] []
        (sample_dashboard 5 False False no_filter) sample_clock
        [AnswerClick 0, AnswerClick 1, Quit]) = Some (Inl TypeError)"
  by (simp add: sample_defs handler_defs metrics_def)

subsection \<open>The running score\<close>

text \<open>
  C2. The score should count the questions answered correctly. In a two-question quiz
  without tutor mode or timer, answering the first question correctly, stepping back with
  Previous and answering it again gives a score of 2 with the second question not yet
  answered; answering that one too ends the quiz with a record of \<open>score = 3\<close> and
  \<open>totalQuestions = 2\<close>.
\<close>

theorem score_counts_reanswers:
  "final (score \<circ> st)
     (session unshuffled [sample_bank [sample_question 1 0 False, sample_question 2 0 False]] []
        (sample_dashboard 2 False False no_filter) sample_clock
        [AnswerClick 0, Navigate Prev, AnswerClick 0]) = Some 2 \<and>
   final (currentQuestionIndex \<circ> st)
     (session unshuffled [sample_bank [sample_question 1 0 False, sample_question 2 0 False]] []
        (sample_dashboard 2 False False no_filter) sample_clock
        [AnswerClick 0, Navigate Prev, AnswerClick 0]) = Some 1 \<and>
   final (map h_score \<circ> emitted)
     (session unshuffled [sample_bank [sample_question 1 0 False, sample_question 2 0 False]] []
        (sample_dashboard 2 False False no_filter) sample_clock
        [AnswerClick 0, Navigate Prev, AnswerClick 0, AnswerClick 0]) = Some [3] \<and>
   final (map h_totalQuestions \<circ> emitted)
     (session unshuffled [sample_bank [sample_question 1 0 False, sample_question 2 0 False]] []
        (sample_dashboard 2 False False no_filter) sample_clock
        [AnswerClick 0, Navigate Prev, AnswerClick 0, AnswerClick 0]) = Some [2]"
  by (simp add: sample_defs handler_defs)

end
